theory Spec2Isabelle
  imports Complex_Main "HOL-Library.Sublist"
begin

section \<open>The Grasshopper wind tunnel adapter (windtunnel.py)\<close>

text \<open>
  The file defines one class, \<open>WindTunnelGH\<close>, with a class method
  \<open>from_geometries_wind_vector_and_parameters\<close> (the spec's \<open>construct\<close>) and a method
  \<open>to_openfoam_case\<close> (the spec's \<open>to_case\<close>). Both are thin: they call four
  collaborators that live outside the file (the roughness table \<open>Z0\<close>, the document-unit
  query, the \<open>TunnelParameters\<close> constructor, the base class constructor) and the case
  builder. The collaborators are parameters of the model; the adapter's own control flow
  (the try/except, the \<open>or\<close>, the order of the calls, the arguments forwarded) is what
  is embedded.
\<close>

subsection \<open>Python values\<close>

text \<open>
  The arguments are dynamically typed. A value is \<open>None\<close>, a bool, an int, a string, or
  any other object, of which the adapter only ever observes the truth value (in
  \<open>tunnel_parameters or ...\<close>) and the text that \<open>format\<close> renders (in the error
  message); both are taken to be pure.
\<close>

datatype pyobj = Obj (obj_id: nat) (obj_truth: bool) (obj_str: string)

datatype pyval = PyNone | PyBool bool | PyInt int | PyStr string | PyObj pyobj

text \<open>Truth value testing, as the operator \<open>or\<close> applies it to its left operand.\<close>

fun py_bool :: "pyval \<Rightarrow> bool" where
  "py_bool PyNone = False"
| "py_bool (PyBool b) = b"
| "py_bool (PyInt i) = (i \<noteq> 0)"
| "py_bool (PyStr s) = (s \<noteq> [])"
| "py_bool (PyObj ob) = obj_truth ob"

text \<open>Decimal rendering of an int, for \<open>'{}'.format(landscape)\<close>.\<close>

fun str_nat :: "nat \<Rightarrow> string" where
  "str_nat n =
     (if n < 10 then [''0123456789'' ! n]
      else str_nat (n div 10) @ [''0123456789'' ! (n mod 10)])"

declare str_nat.simps [simp del]

fun py_str :: "pyval \<Rightarrow> string" where
  "py_str PyNone = ''None''"
| "py_str (PyBool b) = (if b then ''True'' else ''False'')"
| "py_str (PyInt i) = (if i < 0 then ''-'' @ str_nat (nat (- i)) else str_nat (nat i))"
| "py_str (PyStr s) = s"
| "py_str (PyObj ob) = obj_str ob"

text \<open>
  A raised exception: its class name and \<open>str(e)\<close>. \<open>Exn\<close> stands for the classes
  derived from \<open>Exception\<close>, which \<open>except Exception\<close> catches; \<open>BaseExn\<close> for
  the others (\<open>KeyboardInterrupt\<close>, \<open>SystemExit\<close>), which it lets through.
\<close>

datatype exn = Exn string string | BaseExn string string

definition succeeds :: "exn + 'a \<Rightarrow> bool" where
  "succeeds r = (case r of Inl e \<Rightarrow> False | Inr v \<Rightarrow> True)"

text \<open>A parameter with a default: \<open>None\<close> when the caller leaves it out.\<close>

definition arg_or :: "pyval \<Rightarrow> pyval option \<Rightarrow> pyval" where
  "arg_or d x = (case x of None \<Rightarrow> d | Some v \<Rightarrow> v)"

subsection \<open>The collaborators and the observable state\<close>

text \<open>The eight positional arguments of the base class constructor.\<close>

record base_args =
  base_name :: pyval
  base_geometries :: pyval
  base_wind_vector :: pyval
  base_tunnel_parameters :: pyval
  base_roughness :: real
  base_meshing_parameters :: pyval
  base_zref :: pyval
  base_convertToMeters :: real

text \<open>
  The calls that leave the adapter, in the order they are made. The world \<open>'w\<close> is
  whatever the collaborators read and write (the document, the objects); the adapter
  itself touches it only through them.
\<close>

datatype call =
    CallConvertUnits
  | CallTunnelParameters
  | CallBaseConstructor base_args
  | CallCaseBuilder pyval pyval

record 'w pystate =
  world :: 'w
  calls :: "call list"

record 'w env =
  env_Z0 :: "pyval \<Rightarrow> exn + real"
  env_convert_document_units_to_meters :: "'w \<Rightarrow> (exn + real) \<times> 'w"
  env_TunnelParameters :: "'w \<Rightarrow> (exn + pyobj) \<times> 'w"
  env_WindTunnel_from_geometries :: "base_args \<Rightarrow> 'w \<Rightarrow> (exn + pyval) \<times> 'w"
  env_Case_from_wind_tunnel :: "pyval \<Rightarrow> pyval \<Rightarrow> 'w \<Rightarrow> (exn + pyval) \<times> 'w"

text \<open>An external call: it runs on the world and is appended to the record of calls.\<close>

definition external ::
  "call \<Rightarrow> ('w \<Rightarrow> (exn + 'a) \<times> 'w) \<Rightarrow> 'w pystate \<Rightarrow> (exn + 'a) \<times> 'w pystate" where
  "external c f s =
     (case f (world s) of (r, w') \<Rightarrow> (r, \<lparr>world = w', calls = calls s @ [c]\<rparr>))"

text \<open>The base-constructor calls among a record of calls.\<close>

fun base_calls :: "call list \<Rightarrow> base_args list" where
  "base_calls [] = []"
| "base_calls (CallBaseConstructor A # cs) = A # base_calls cs"
| "base_calls (c # cs) = base_calls cs"

subsection \<open>The roughness table\<close>

text \<open>
  Modelled from the spec: the class \<open>Z0\<close> of module \<open>butterfly.z0\<close> is not in the
  file. The spec gives the table (section 3; the class docstring lists the same eight
  values) and the contract of the lookup (section 6): it returns the entry for an integer
  in [0,7] and fails on out-of-range or non-integer input. Which exception the failure
  is the spec does not say, so its class name and message are the parameter
  \<open>failure\<close>; it is derived from \<open>Exception\<close>. A bool is an int in Python
  (\<open>True\<close> is 1, \<open>False\<close> is 0).
\<close>

definition Z0_values :: "real list" where
  "Z0_values = [0.0002, 0.005, 0.03, 0.10, 0.25, 0.5, 1.0, 2.0]"

fun as_index :: "pyval \<Rightarrow> int option" where
  "as_index (PyInt i) = Some i"
| "as_index (PyBool b) = Some (if b then 1 else 0)"
| "as_index v = None"

definition Z0_getitem :: "(pyval \<Rightarrow> string \<times> string) \<Rightarrow> pyval \<Rightarrow> exn + real" where
  "Z0_getitem failure key =
     (case as_index key of
        Some i \<Rightarrow>
          if 0 \<le> i \<and> i \<le> 7 then Inr (Z0_values ! nat i)
          else Inl (Exn (fst (failure key)) (snd (failure key)))
      | None \<Rightarrow> Inl (Exn (fst (failure key)) (snd (failure key))))"

text \<open>The spec's RoughnessCategory: an integer in [0,7].\<close>

definition valid_landscape :: "pyval \<Rightarrow> bool" where
  "valid_landscape v = (case as_index v of Some i \<Rightarrow> 0 \<le> i \<and> i \<le> 7 | None \<Rightarrow> False)"

subsection \<open>The two methods\<close>

text \<open>
  The arguments of \<open>from_geometries_wind_vector_and_parameters\<close>; the four with a
  default are optional (\<open>None\<close>: the caller did not pass it).
\<close>

record ctor_args =
  arg_name :: pyval
  arg_geometries :: pyval
  arg_wind_vector :: pyval
  arg_tunnel_parameters :: "pyval option"
  arg_landscape :: "pyval option"
  arg_meshing_parameters :: "pyval option"
  arg_zref :: "pyval option"

text \<open>
  Lines 64-84. The lookup is inside \<open>try\<close>; a failure derived from \<open>Exception\<close> is
  replaced by a \<open>ValueError\<close> (the spec's InvalidLandscapeError) whose message is
  \<open>'Invalid input for landscape:{}\n{}'.format(landscape, e)\<close>. Then the unit query,
  then \<open>tunnel_parameters or TunnelParameters()\<close>, then the base constructor, whose
  result is returned.
\<close>

definition from_geometries_wind_vector_and_parameters ::
  "'w env \<Rightarrow> ctor_args \<Rightarrow> 'w pystate \<Rightarrow> (exn + pyval) \<times> 'w pystate" where
  "from_geometries_wind_vector_and_parameters env a s =
     (let tunnel_parameters = arg_or PyNone (arg_tunnel_parameters a);
          landscape = arg_or (PyInt 1) (arg_landscape a);
          meshing_parameters = arg_or PyNone (arg_meshing_parameters a);
          zref = arg_or PyNone (arg_zref a)
      in case env_Z0 env landscape of
           Inl (BaseExn k m) \<Rightarrow> (Inl (BaseExn k m), s)
         | Inl (Exn k m) \<Rightarrow>
             (Inl (Exn ''ValueError''
                (''Invalid input for landscape:'' @ py_str landscape @ [CHR 0x0A] @ m)), s)
         | Inr roughness \<Rightarrow>
             (case external CallConvertUnits (env_convert_document_units_to_meters env) s of
                (Inl e, s1) \<Rightarrow> (Inl e, s1)
              | (Inr convertToMeters, s1) \<Rightarrow>
                  (case (if py_bool tunnel_parameters then (Inr tunnel_parameters, s1)
                         else (case external CallTunnelParameters
                                      (env_TunnelParameters env) s1 of
                                 (Inl e, s2) \<Rightarrow> (Inl e, s2)
                               | (Inr d, s2) \<Rightarrow> (Inr (PyObj d), s2))) of
                     (Inl e, s2) \<Rightarrow> (Inl e, s2)
                   | (Inr tp, s2) \<Rightarrow>
                       (let A = \<lparr>base_name = arg_name a,
                                 base_geometries = arg_geometries a,
                                 base_wind_vector = arg_wind_vector a,
                                 base_tunnel_parameters = tp,
                                 base_roughness = roughness,
                                 base_meshing_parameters = meshing_parameters,
                                 base_zref = zref,
                                 base_convertToMeters = convertToMeters\<rparr>
                        in external (CallBaseConstructor A)
                             (env_WindTunnel_from_geometries env A) s2))))"

text \<open>Lines 86-88: \<open>return Case.from_wind_tunnel(self, make2d_parameters)\<close>.\<close>

definition to_openfoam_case ::
  "'w env \<Rightarrow> pyval \<Rightarrow> pyval option \<Rightarrow> 'w pystate \<Rightarrow> (exn + pyval) \<times> 'w pystate" where
  "to_openfoam_case env self make2d s =
     (let make2d_parameters = arg_or PyNone make2d
      in external (CallCaseBuilder self make2d_parameters)
           (env_Case_from_wind_tunnel env self make2d_parameters) s)"

subsection \<open>A concrete environment\<close>

text \<open>
  Stub collaborators over a world that is a counter: the unit query adds 1, the
  \<open>TunnelParameters\<close> constructor 10, the base constructor 100; the case builder
  leaves the world as it is. They are the concrete inputs the theorems are run on.
\<close>

definition example_env :: "nat env" where
  "example_env =
     \<lparr>env_Z0 = Z0_getitem (\<lambda>v. (''IndexError'', ''index out of range'')),
      env_convert_document_units_to_meters = (\<lambda>w. (Inr 0.001, w + 1)),
      env_TunnelParameters = (\<lambda>w. (Inr (Obj 7 True ''TunnelParameters''), w + 10)),
      env_WindTunnel_from_geometries =
        (\<lambda>A w. (Inr (PyObj (Obj 1 True ''WindTunnelGH'')), w + 100)),
      env_Case_from_wind_tunnel = (\<lambda>self m w. (Inr (PyObj (Obj 2 True ''Case'')), w))\<rparr>"

definition example_args :: ctor_args where
  "example_args =
     \<lparr>arg_name = PyStr ''tunnel'', arg_geometries = PyObj (Obj 3 False ''[]''),
      arg_wind_vector = PyObj (Obj 4 True ''Vector3D''),
      arg_tunnel_parameters = None, arg_landscape = None,
      arg_meshing_parameters = None, arg_zref = None\<rparr>"

definition example_state :: "nat pystate" where
  "example_state = \<lparr>world = 0, calls = []\<rparr>"

section \<open>Properties\<close>

subsection \<open>Auxiliary facts\<close>

lemma external_fst: "fst (external c f s) = fst (f (world s))"
  by (simp add: external_def split: prod.splits)

lemma base_calls_append: "base_calls (xs @ ys) = base_calls xs @ base_calls ys"
  by (induction xs rule: base_calls.induct) simp_all

lemma construct_truthy:
  assumes "env_Z0 env (arg_or (PyInt 1) (arg_landscape a)) = Inr z"
    and "env_convert_document_units_to_meters env (world s) = (Inr c, w1)"
    and "py_bool (arg_or PyNone (arg_tunnel_parameters a))"
  shows "from_geometries_wind_vector_and_parameters env a s =
     external
       (CallBaseConstructor
          \<lparr>base_name = arg_name a, base_geometries = arg_geometries a,
           base_wind_vector = arg_wind_vector a,
           base_tunnel_parameters = arg_or PyNone (arg_tunnel_parameters a),
           base_roughness = z,
           base_meshing_parameters = arg_or PyNone (arg_meshing_parameters a),
           base_zref = arg_or PyNone (arg_zref a), base_convertToMeters = c\<rparr>)
       (env_WindTunnel_from_geometries env
          \<lparr>base_name = arg_name a, base_geometries = arg_geometries a,
           base_wind_vector = arg_wind_vector a,
           base_tunnel_parameters = arg_or PyNone (arg_tunnel_parameters a),
           base_roughness = z,
           base_meshing_parameters = arg_or PyNone (arg_meshing_parameters a),
           base_zref = arg_or PyNone (arg_zref a), base_convertToMeters = c\<rparr>)
       \<lparr>world = w1, calls = calls s @ [CallConvertUnits]\<rparr>"
  using assms
  by (simp add: from_geometries_wind_vector_and_parameters_def external_def Let_def)

lemma construct_falsy:
  assumes "env_Z0 env (arg_or (PyInt 1) (arg_landscape a)) = Inr z"
    and "env_convert_document_units_to_meters env (world s) = (Inr c, w1)"
    and "\<not> py_bool (arg_or PyNone (arg_tunnel_parameters a))"
    and "env_TunnelParameters env w1 = (Inr d, w2)"
  shows "from_geometries_wind_vector_and_parameters env a s =
     external
       (CallBaseConstructor
          \<lparr>base_name = arg_name a, base_geometries = arg_geometries a,
           base_wind_vector = arg_wind_vector a,
           base_tunnel_parameters = PyObj d,
           base_roughness = z,
           base_meshing_parameters = arg_or PyNone (arg_meshing_parameters a),
           base_zref = arg_or PyNone (arg_zref a), base_convertToMeters = c\<rparr>)
       (env_WindTunnel_from_geometries env
          \<lparr>base_name = arg_name a, base_geometries = arg_geometries a,
           base_wind_vector = arg_wind_vector a,
           base_tunnel_parameters = PyObj d,
           base_roughness = z,
           base_meshing_parameters = arg_or PyNone (arg_meshing_parameters a),
           base_zref = arg_or PyNone (arg_zref a), base_convertToMeters = c\<rparr>)
       \<lparr>world = w2, calls = calls s @ [CallConvertUnits, CallTunnelParameters]\<rparr>"
  using assms
  by (simp add: from_geometries_wind_vector_and_parameters_def external_def Let_def)

text \<open>Whenever the lookup, the unit query and the resolution of the tunnel parameters
  succeed, the base constructor is the last thing called, once, and what it returns is
  what the method returns.\<close>

lemma construct_forwards:
  assumes "env_Z0 env (arg_or (PyInt 1) (arg_landscape a)) = Inr z"
    and "env_convert_document_units_to_meters env (world s) = (Inr c, w1)"
    and "py_bool (arg_or PyNone (arg_tunnel_parameters a))
         \<or> env_TunnelParameters env w1 = (Inr d, w2)"
  shows "\<exists>A s2. from_geometries_wind_vector_and_parameters env a s =
            external (CallBaseConstructor A) (env_WindTunnel_from_geometries env A) s2
          \<and> base_calls (calls s2) = base_calls (calls s)
          \<and> base_name A = arg_name a
          \<and> base_geometries A = arg_geometries a
          \<and> base_wind_vector A = arg_wind_vector a
          \<and> base_tunnel_parameters A =
              (if py_bool (arg_or PyNone (arg_tunnel_parameters a))
               then arg_or PyNone (arg_tunnel_parameters a) else PyObj d)
          \<and> base_roughness A = z
          \<and> base_meshing_parameters A = arg_or PyNone (arg_meshing_parameters a)
          \<and> base_zref A = arg_or PyNone (arg_zref a)
          \<and> base_convertToMeters A = c"
proof (cases "py_bool (arg_or PyNone (arg_tunnel_parameters a))")
  case True
  show ?thesis
    apply (intro exI conjI)
    apply (rule construct_truthy [OF assms(1) assms(2) True])
    apply (simp_all add: base_calls_append True)
    done
next
  case False
  with assms(3) have tp: "env_TunnelParameters env w1 = (Inr d, w2)" by simp
  show ?thesis
    apply (intro exI conjI)
    apply (rule construct_falsy [OF assms(1) assms(2) False tp])
    apply (simp_all add: base_calls_append False)
    done
qed

lemma Z0_getitem_valid:
  assumes "as_index v = Some i" and "0 \<le> i" and "i \<le> 7"
  shows "Z0_getitem failure v = Inr (Z0_values ! nat i)"
  using assms by (simp add: Z0_getitem_def)

lemma Z0_getitem_invalid:
  assumes "\<not> valid_landscape v"
  shows "Z0_getitem failure v = Inl (Exn (fst (failure v)) (snd (failure v)))"
  using assms by (cases "as_index v") (auto simp add: Z0_getitem_def valid_landscape_def)

subsection \<open>C1: a landscape in [0,7] passes and the table value is forwarded\<close>

text \<open>
  Claim C1. For every landscape that is an integer in [0,7] the lookup passes the local
  validation, and the roughness length handed to the base constructor is the entry of the
  fixed table at that index (0.0002, 0.005, 0.03, 0.10, 0.25, 0.5, 1.0, 2.0). The method
  then returns what the base constructor returns, so it succeeds exactly when the base
  constructor does: nothing of the adapter's own can fail any more. The collaborators
  that run before the base constructor (the unit query, and the \<open>TunnelParameters\<close>
  constructor when it is needed) are taken to succeed, as section 6 of the spec assumes
  of the unit query; the base constructor's call is the only one of its kind that the
  method makes.
\<close>

theorem C1_valid_landscape_forwards_table_value:
  assumes "env_Z0 env = Z0_getitem failure"
    and "arg_landscape a = Some v" and "as_index v = Some i" and "0 \<le> i" and "i \<le> 7"
    and "env_convert_document_units_to_meters env (world s) = (Inr c, w1)"
    and "py_bool (arg_or PyNone (arg_tunnel_parameters a))
         \<or> env_TunnelParameters env w1 = (Inr d, w2)"
  shows "\<exists>A s2. from_geometries_wind_vector_and_parameters env a s =
              external (CallBaseConstructor A) (env_WindTunnel_from_geometries env A) s2
            \<and> base_calls (calls s2) = base_calls (calls s)
            \<and> base_roughness A = [0.0002, 0.005, 0.03, 0.10, 0.25, 0.5, 1.0, 2.0] ! nat i
            \<and> fst (from_geometries_wind_vector_and_parameters env a s) =
                fst (env_WindTunnel_from_geometries env A (world s2))
            \<and> succeeds (fst (from_geometries_wind_vector_and_parameters env a s)) =
                succeeds (fst (env_WindTunnel_from_geometries env A (world s2)))"
proof -
  have look: "env_Z0 env (arg_or (PyInt 1) (arg_landscape a)) = Inr (Z0_values ! nat i)"
    using assms(1-5) by (simp add: arg_or_def Z0_getitem_valid)
  from construct_forwards [OF look assms(6) assms(7)]
  obtain A s2 where R: "from_geometries_wind_vector_and_parameters env a s =
        external (CallBaseConstructor A) (env_WindTunnel_from_geometries env A) s2"
    and B: "base_calls (calls s2) = base_calls (calls s)"
    and Z: "base_roughness A = Z0_values ! nat i"
    by blast
  have T: "base_roughness A = [0.0002, 0.005, 0.03, 0.10, 0.25, 0.5, 1.0, 2.0] ! nat i"
    using Z by (simp add: Z0_values_def)
  have F: "fst (from_geometries_wind_vector_and_parameters env a s) =
      fst (env_WindTunnel_from_geometries env A (world s2))"
    by (simp add: R external_fst)
  from R B T F show ?thesis by metis
qed

theorem C1_witness:
  "env_Z0 example_env = Z0_getitem (\<lambda>v. (''IndexError'', ''index out of range''))
   \<and> as_index (PyInt 7) = Some 7 \<and> (0::int) \<le> 7 \<and> (7::int) \<le> 7
   \<and> env_convert_document_units_to_meters example_env (world example_state) = (Inr 0.001, 1)
   \<and> env_TunnelParameters example_env 1 = (Inr (Obj 7 True ''TunnelParameters''), 11)
   \<and> (\<exists>A s2. from_geometries_wind_vector_and_parameters example_env
                 (example_args\<lparr>arg_landscape := Some (PyInt 7)\<rparr>) example_state =
              external (CallBaseConstructor A)
                (env_WindTunnel_from_geometries example_env A) s2
            \<and> base_calls (calls s2) = base_calls (calls example_state)
            \<and> base_roughness A = 2)
   \<and> succeeds (fst (from_geometries_wind_vector_and_parameters example_env
                 (example_args\<lparr>arg_landscape := Some (PyInt 7)\<rparr>) example_state))"
proof -
  have h: "env_Z0 example_env = Z0_getitem (\<lambda>v. (''IndexError'', ''index out of range''))
     \<and> as_index (PyInt 7) = Some 7 \<and> (0::int) \<le> 7 \<and> (7::int) \<le> 7
     \<and> env_convert_document_units_to_meters example_env (world example_state)
         = (Inr 0.001, 1)
     \<and> env_TunnelParameters example_env 1 = (Inr (Obj 7 True ''TunnelParameters''), 11)"
    by (simp add: example_env_def example_state_def)
  have a: "arg_landscape (example_args\<lparr>arg_landscape := Some (PyInt 7)\<rparr>)
      = Some (PyInt 7)"
    by simp
  have ok: "\<And>A w. succeeds (fst (env_WindTunnel_from_geometries example_env A w))"
    by (simp add: example_env_def succeeds_def)
  from C1_valid_landscape_forwards_table_value
    [where env = example_env and failure = "\<lambda>v. (''IndexError'', ''index out of range'')"
       and a = "example_args\<lparr>arg_landscape := Some (PyInt 7)\<rparr>" and v = "PyInt 7"
       and i = 7 and s = example_state and c = "0.001" and ?w1.0 = 1
       and d = "Obj 7 True ''TunnelParameters''" and ?w2.0 = 11]
    h a
  obtain A s2 where R: "from_geometries_wind_vector_and_parameters example_env
        (example_args\<lparr>arg_landscape := Some (PyInt 7)\<rparr>) example_state =
        external (CallBaseConstructor A) (env_WindTunnel_from_geometries example_env A) s2"
    and B: "base_calls (calls s2) = base_calls (calls example_state)"
    and Z: "base_roughness A = [0.0002, 0.005, 0.03, 0.10, 0.25, 0.5, 1.0, 2.0] ! nat 7"
    and S: "succeeds (fst (from_geometries_wind_vector_and_parameters example_env
              (example_args\<lparr>arg_landscape := Some (PyInt 7)\<rparr>) example_state)) =
            succeeds (fst (env_WindTunnel_from_geometries example_env A (world s2)))"
    by blast
  from Z have Z': "base_roughness A = 2" by simp
  from S ok have S': "succeeds (fst (from_geometries_wind_vector_and_parameters example_env
              (example_args\<lparr>arg_landscape := Some (PyInt 7)\<rparr>) example_state))"
    by simp
  from h R B Z' S' show ?thesis by blast
qed

subsection \<open>C2: any other landscape raises the ValueError\<close>

text \<open>
  Claim C2. For every landscape that is not an integer in [0,7] (such as -1, 8 or the
  string "x") the method fails with the \<open>ValueError\<close> that the spec calls
  InvalidLandscapeError. Its message is \<open>Invalid input for landscape:\<close>, the
  rendering of the offending value, a newline and the message of the lookup failure, so
  it contains both the value and the failure detail.
\<close>

theorem C2_invalid_landscape_raises:
  assumes "env_Z0 env = Z0_getitem failure"
    and "arg_landscape a = Some v"
    and "\<not> valid_landscape v"
  shows "\<exists>msg. from_geometries_wind_vector_and_parameters env a s =
             (Inl (Exn ''ValueError'' msg), s)
           \<and> msg = ''Invalid input for landscape:'' @ py_str v @ [CHR 0x0A]
                   @ snd (failure v)
           \<and> sublist (py_str v) msg
           \<and> sublist (snd (failure v)) msg"
proof -
  let ?msg = "''Invalid input for landscape:'' @ py_str v @ [CHR 0x0A] @ snd (failure v)"
  have look: "env_Z0 env (arg_or (PyInt 1) (arg_landscape a))
      = Inl (Exn (fst (failure v)) (snd (failure v)))"
    using assms by (simp add: arg_or_def Z0_getitem_invalid)
  have R: "from_geometries_wind_vector_and_parameters env a s =
      (Inl (Exn ''ValueError'' ?msg), s)"
    using look assms(2)
    by (simp add: from_geometries_wind_vector_and_parameters_def Let_def arg_or_def)
  have S1: "sublist (py_str v) ?msg"
    by (rule sublist_appendI)
  have "?msg = (''Invalid input for landscape:'' @ py_str v @ [CHR 0x0A])
                 @ snd (failure v) @ []"
    by simp
  then have S2: "sublist (snd (failure v)) ?msg"
    by (metis sublist_appendI)
  from R S1 S2 show ?thesis by blast
qed

theorem C2_witness:
  "\<not> valid_landscape (PyInt (- 1)) \<and> \<not> valid_landscape (PyInt 8)
   \<and> \<not> valid_landscape (PyStr ''x'')
   \<and> from_geometries_wind_vector_and_parameters example_env
        (example_args\<lparr>arg_landscape := Some (PyInt (- 1))\<rparr>) example_state =
      (Inl (Exn ''ValueError''
         (''Invalid input for landscape:-1'' @ [CHR 0x0A] @ ''index out of range'')),
       example_state)
   \<and> from_geometries_wind_vector_and_parameters example_env
        (example_args\<lparr>arg_landscape := Some (PyInt 8)\<rparr>) example_state =
      (Inl (Exn ''ValueError''
         (''Invalid input for landscape:8'' @ [CHR 0x0A] @ ''index out of range'')),
       example_state)
   \<and> from_geometries_wind_vector_and_parameters example_env
        (example_args\<lparr>arg_landscape := Some (PyStr ''x'')\<rparr>) example_state =
      (Inl (Exn ''ValueError''
         (''Invalid input for landscape:x'' @ [CHR 0x0A] @ ''index out of range'')),
       example_state)"
  using C2_invalid_landscape_raises
    [of example_env "\<lambda>v. (''IndexError'', ''index out of range'')"
        "example_args\<lparr>arg_landscape := Some (PyInt (- 1))\<rparr>" "PyInt (- 1)" example_state]
    C2_invalid_landscape_raises
    [of example_env "\<lambda>v. (''IndexError'', ''index out of range'')"
        "example_args\<lparr>arg_landscape := Some (PyInt 8)\<rparr>" "PyInt 8" example_state]
    C2_invalid_landscape_raises
    [of example_env "\<lambda>v. (''IndexError'', ''index out of range'')"
        "example_args\<lparr>arg_landscape := Some (PyStr ''x'')\<rparr>" "PyStr ''x''" example_state]
  by (simp add: example_env_def example_args_def valid_landscape_def str_nat.simps)

subsection \<open>C3: a failed lookup has no external effect\<close>

text \<open>
  Claim C3. Whenever the lookup fails (with any exception, caught or not), the method
  fails and the state is exactly the one it started from: no call has been added to the
  record (no unit query, no \<open>TunnelParameters\<close>, no base constructor) and the world
  is unchanged.
\<close>

theorem C3_lookup_failure_is_atomic:
  assumes "env_Z0 env (arg_or (PyInt 1) (arg_landscape a)) = Inl e"
  shows "\<not> succeeds (fst (from_geometries_wind_vector_and_parameters env a s))
       \<and> snd (from_geometries_wind_vector_and_parameters env a s) = s
       \<and> calls (snd (from_geometries_wind_vector_and_parameters env a s)) = calls s
       \<and> world (snd (from_geometries_wind_vector_and_parameters env a s)) = world s"
  using assms
  by (cases e)
     (simp_all add: from_geometries_wind_vector_and_parameters_def Let_def succeeds_def)

theorem C3_witness:
  "env_Z0 example_env (arg_or (PyInt 1) (arg_landscape
      (example_args\<lparr>arg_landscape := Some (PyInt 8)\<rparr>)))
     = Inl (Exn ''IndexError'' ''index out of range'')
   \<and> \<not> succeeds (fst (from_geometries_wind_vector_and_parameters example_env
          (example_args\<lparr>arg_landscape := Some (PyInt 8)\<rparr>) example_state))
   \<and> calls (snd (from_geometries_wind_vector_and_parameters example_env
          (example_args\<lparr>arg_landscape := Some (PyInt 8)\<rparr>) example_state)) = []
   \<and> world (snd (from_geometries_wind_vector_and_parameters example_env
          (example_args\<lparr>arg_landscape := Some (PyInt 8)\<rparr>) example_state)) = 0"
  using C3_lookup_failure_is_atomic
    [of example_env "example_args\<lparr>arg_landscape := Some (PyInt 8)\<rparr>"
        "Exn ''IndexError'' ''index out of range''" example_state]
  by (simp add: example_env_def example_args_def example_state_def arg_or_def
        Z0_getitem_def)

subsection \<open>C4: \<open>to_openfoam_case\<close> is a pure delegation\<close>

text \<open>
  Claim C4. \<open>to_openfoam_case\<close> returns exactly what the case builder returns for
  \<open>(self, make2d_parameters)\<close>, be it a value or a raised exception; the world is the
  one the builder leaves, and the builder's call is the only thing added to the record.
\<close>

theorem C4_to_case_is_pure_delegation:
  "to_openfoam_case env self m s =
     (fst (env_Case_from_wind_tunnel env self (arg_or PyNone m) (world s)),
      \<lparr>world = snd (env_Case_from_wind_tunnel env self (arg_or PyNone m) (world s)),
       calls = calls s @ [CallCaseBuilder self (arg_or PyNone m)]\<rparr>)"
  by (simp add: to_openfoam_case_def external_def Let_def split: prod.splits)

subsection \<open>C5: absent tunnel parameters are replaced by a default instance\<close>

text \<open>
  Claim C5. When \<open>tunnel_parameters\<close> is \<open>None\<close> (left out, or passed as
  \<open>None\<close>), the \<open>TunnelParameters\<close> constructor is called, after the unit query,
  and the instance it returns is what the base constructor receives as tunnel
  parameters: an object, not \<open>None\<close>.
\<close>

theorem C5_absent_tunnel_parameters_get_default:
  assumes "arg_tunnel_parameters a = None \<or> arg_tunnel_parameters a = Some PyNone"
    and "env_Z0 env (arg_or (PyInt 1) (arg_landscape a)) = Inr z"
    and "env_convert_document_units_to_meters env (world s) = (Inr c, w1)"
    and "env_TunnelParameters env w1 = (Inr d, w2)"
  shows "\<exists>A. from_geometries_wind_vector_and_parameters env a s =
            external (CallBaseConstructor A) (env_WindTunnel_from_geometries env A)
              \<lparr>world = w2, calls = calls s @ [CallConvertUnits, CallTunnelParameters]\<rparr>
          \<and> base_tunnel_parameters A = PyObj d
          \<and> base_tunnel_parameters A \<noteq> PyNone"
proof -
  have falsy: "\<not> py_bool (arg_or PyNone (arg_tunnel_parameters a))"
    using assms(1) by (auto simp add: arg_or_def)
  show ?thesis
    by (intro exI conjI, rule construct_falsy [OF assms(2) assms(3) falsy assms(4)])
       simp_all
qed

theorem C5_witness:
  "arg_tunnel_parameters example_args = None
   \<and> env_Z0 example_env (arg_or (PyInt 1) (arg_landscape example_args)) = Inr 0.005
   \<and> env_convert_document_units_to_meters example_env (world example_state)
       = (Inr 0.001, 1)
   \<and> env_TunnelParameters example_env 1 = (Inr (Obj 7 True ''TunnelParameters''), 11)
   \<and> (\<exists>A. from_geometries_wind_vector_and_parameters example_env example_args
              example_state =
            external (CallBaseConstructor A)
              (env_WindTunnel_from_geometries example_env A)
              \<lparr>world = 11, calls = [CallConvertUnits, CallTunnelParameters]\<rparr>
          \<and> base_tunnel_parameters A = PyObj (Obj 7 True ''TunnelParameters'')
          \<and> base_tunnel_parameters A \<noteq> PyNone)"
  using C5_absent_tunnel_parameters_get_default
    [of example_args example_env "0.005" example_state "0.001" 1
        "Obj 7 True ''TunnelParameters''" 11]
  by (simp add: example_env_def example_args_def example_state_def arg_or_def
        Z0_getitem_def Z0_values_def)

subsection \<open>C6: \<open>zref\<close> and \<open>meshing_parameters\<close> are forwarded as they are\<close>

text \<open>
  Claim C6. The base constructor receives \<open>zref\<close> and \<open>meshing_parameters\<close>
  exactly as the caller gave them, and \<open>None\<close> when the caller gave \<open>None\<close> or
  nothing: no default (such as 10 for \<open>zref\<close>) is put in their place here.
\<close>

theorem C6_zref_and_meshing_parameters_forwarded_unmodified:
  assumes "env_Z0 env (arg_or (PyInt 1) (arg_landscape a)) = Inr z"
    and "env_convert_document_units_to_meters env (world s) = (Inr c, w1)"
    and "py_bool (arg_or PyNone (arg_tunnel_parameters a))
         \<or> env_TunnelParameters env w1 = (Inr d, w2)"
  shows "\<exists>A s2. from_geometries_wind_vector_and_parameters env a s =
            external (CallBaseConstructor A) (env_WindTunnel_from_geometries env A) s2
          \<and> base_calls (calls s2) = base_calls (calls s)
          \<and> base_zref A = (case arg_zref a of None \<Rightarrow> PyNone | Some v \<Rightarrow> v)
          \<and> base_meshing_parameters A =
              (case arg_meshing_parameters a of None \<Rightarrow> PyNone | Some v \<Rightarrow> v)"
  using construct_forwards [OF assms] unfolding arg_or_def by blast

theorem C6_witness:
  "env_Z0 example_env (arg_or (PyInt 1) (arg_landscape example_args)) = Inr 0.005
   \<and> env_convert_document_units_to_meters example_env (world example_state)
       = (Inr 0.001, 1)
   \<and> env_TunnelParameters example_env 1 = (Inr (Obj 7 True ''TunnelParameters''), 11)
   \<and> (\<exists>A s2. from_geometries_wind_vector_and_parameters example_env
              (example_args\<lparr>arg_zref := Some PyNone,
                 arg_meshing_parameters := Some (PyObj (Obj 9 True ''MeshingParameters''))\<rparr>)
              example_state =
            external (CallBaseConstructor A)
              (env_WindTunnel_from_geometries example_env A) s2
          \<and> base_calls (calls s2) = base_calls (calls example_state)
          \<and> base_zref A = PyNone
          \<and> base_meshing_parameters A = PyObj (Obj 9 True ''MeshingParameters''))"
  using C6_zref_and_meshing_parameters_forwarded_unmodified
    [of example_env "example_args\<lparr>arg_zref := Some PyNone,
          arg_meshing_parameters := Some (PyObj (Obj 9 True ''MeshingParameters''))\<rparr>"
        "0.005" example_state "0.001" 1
        "Obj 7 True ''TunnelParameters''" 11]
  by (simp add: example_env_def example_args_def example_state_def arg_or_def
        Z0_getitem_def Z0_values_def)

subsection \<open>C7: calling \<open>to_openfoam_case\<close> twice\<close>

text \<open>
  Claim C7. Two calls of \<open>to_openfoam_case\<close> with the same argument on the same
  instance make two calls of the case builder with the same two arguments. The method
  itself changes nothing: the world after each call is the one the builder leaves, so
  with a builder that leaves the world alone the instance and everything else are as
  before, and the second call returns what the first returned.
\<close>

theorem C7_to_case_twice:
  "(case to_openfoam_case env self m s of (r1, s1) \<Rightarrow>
      case to_openfoam_case env self m s1 of (r2, s2) \<Rightarrow>
        calls s1 = calls s @ [CallCaseBuilder self (arg_or PyNone m)]
      \<and> calls s2 = calls s @ [CallCaseBuilder self (arg_or PyNone m),
                               CallCaseBuilder self (arg_or PyNone m)]
      \<and> world s1 = snd (env_Case_from_wind_tunnel env self (arg_or PyNone m) (world s))
      \<and> world s2 = snd (env_Case_from_wind_tunnel env self (arg_or PyNone m) (world s1))
      \<and> ((\<forall>w. snd (env_Case_from_wind_tunnel env self (arg_or PyNone m) w) = w)
           \<longrightarrow> world s1 = world s \<and> world s2 = world s \<and> r2 = r1))"
proof -
  let ?f = "env_Case_from_wind_tunnel env self (arg_or PyNone m)"
  obtain r1 w1 where f1: "?f (world s) = (r1, w1)" by (cases "?f (world s)")
  obtain r2 w2 where f2: "?f w1 = (r2, w2)" by (cases "?f w1")
  have pure: "(\<forall>w. snd (?f w) = w) \<longrightarrow> w1 = world s \<and> w2 = world s \<and> r2 = r1"
  proof
    assume a: "\<forall>w. snd (?f w) = w"
    from a f1 have e1: "w1 = world s" by (metis snd_conv)
    from a f2 have e2: "w2 = w1" by (metis snd_conv)
    from f1 f2 e1 have "r2 = r1" by simp
    with e1 e2 show "w1 = world s \<and> w2 = world s \<and> r2 = r1" by simp
  qed
  show ?thesis
    using pure by (simp add: to_openfoam_case_def external_def Let_def f1 f2)
qed

theorem C7_witness:
  "(\<forall>w. snd (env_Case_from_wind_tunnel example_env (PyObj (Obj 1 True ''WindTunnelGH''))
            (arg_or PyNone None) w) = w)
   \<and> (case to_openfoam_case example_env (PyObj (Obj 1 True ''WindTunnelGH'')) None
             example_state of (r1, s1) \<Rightarrow>
        case to_openfoam_case example_env (PyObj (Obj 1 True ''WindTunnelGH'')) None s1
          of (r2, s2) \<Rightarrow>
          calls s2 = [CallCaseBuilder (PyObj (Obj 1 True ''WindTunnelGH'')) PyNone,
                      CallCaseBuilder (PyObj (Obj 1 True ''WindTunnelGH'')) PyNone]
        \<and> world s2 = world example_state \<and> r2 = r1
        \<and> r1 = Inr (PyObj (Obj 2 True ''Case'')))"
  using C7_to_case_twice
    [where env = example_env and self = "PyObj (Obj 1 True ''WindTunnelGH'')"
       and m = None and s = example_state]
  by (simp add: example_env_def example_state_def arg_or_def to_openfoam_case_def
        external_def split: prod.splits)

subsection \<open>C8: the landscape defaults to 1\<close>

text \<open>
  Claim C8. Leaving \<open>landscape\<close> out is the same as passing 1: the two calls have
  the same result and the same effects, whatever the collaborators do. With the spec's
  roughness table the roughness length forwarded is then 0.005.
\<close>

theorem C8_landscape_defaults_to_1:
  "from_geometries_wind_vector_and_parameters env (a\<lparr>arg_landscape := None\<rparr>) s =
   from_geometries_wind_vector_and_parameters env (a\<lparr>arg_landscape := Some (PyInt 1)\<rparr>) s
   \<and> (env_Z0 env = Z0_getitem failure
        \<and> env_convert_document_units_to_meters env (world s) = (Inr c, w1)
        \<and> (py_bool (arg_or PyNone (arg_tunnel_parameters a))
             \<or> env_TunnelParameters env w1 = (Inr d, w2))
      \<longrightarrow> (\<exists>A s2. from_geometries_wind_vector_and_parameters env
                     (a\<lparr>arg_landscape := None\<rparr>) s =
                   external (CallBaseConstructor A)
                     (env_WindTunnel_from_geometries env A) s2
                 \<and> base_calls (calls s2) = base_calls (calls s)
                 \<and> base_roughness A = 0.005))"
proof (intro conjI impI)
  show "from_geometries_wind_vector_and_parameters env (a\<lparr>arg_landscape := None\<rparr>) s =
    from_geometries_wind_vector_and_parameters env (a\<lparr>arg_landscape := Some (PyInt 1)\<rparr>) s"
    by (simp add: from_geometries_wind_vector_and_parameters_def arg_or_def Let_def
          split: sum.splits exn.splits prod.splits)
next
  assume h: "env_Z0 env = Z0_getitem failure
        \<and> env_convert_document_units_to_meters env (world s) = (Inr c, w1)
        \<and> (py_bool (arg_or PyNone (arg_tunnel_parameters a))
             \<or> env_TunnelParameters env w1 = (Inr d, w2))"
  let ?a = "a\<lparr>arg_landscape := None\<rparr>"
  have look: "env_Z0 env (arg_or (PyInt 1) (arg_landscape ?a)) = Inr 0.005"
    using h by (simp add: arg_or_def Z0_getitem_def Z0_values_def)
  have units: "env_convert_document_units_to_meters env (world s) = (Inr c, w1)"
    using h by simp
  have tp: "py_bool (arg_or PyNone (arg_tunnel_parameters ?a))
      \<or> env_TunnelParameters env w1 = (Inr d, w2)"
    using h by simp
  from construct_forwards [OF look units tp]
  show "\<exists>A s2. from_geometries_wind_vector_and_parameters env ?a s =
            external (CallBaseConstructor A) (env_WindTunnel_from_geometries env A) s2
          \<and> base_calls (calls s2) = base_calls (calls s)
          \<and> base_roughness A = 0.005"
    by blast
qed

theorem C8_witness:
  "env_Z0 example_env = Z0_getitem (\<lambda>v. (''IndexError'', ''index out of range''))
   \<and> env_convert_document_units_to_meters example_env (world example_state)
       = (Inr 0.001, 1)
   \<and> env_TunnelParameters example_env 1 = (Inr (Obj 7 True ''TunnelParameters''), 11)
   \<and> from_geometries_wind_vector_and_parameters example_env
        (example_args\<lparr>arg_landscape := None\<rparr>) example_state =
      from_geometries_wind_vector_and_parameters example_env
        (example_args\<lparr>arg_landscape := Some (PyInt 1)\<rparr>) example_state
   \<and> (\<exists>A s2. from_geometries_wind_vector_and_parameters example_env
                 (example_args\<lparr>arg_landscape := None\<rparr>) example_state =
               external (CallBaseConstructor A)
                 (env_WindTunnel_from_geometries example_env A) s2
             \<and> base_calls (calls s2) = base_calls (calls example_state)
             \<and> base_roughness A = 0.005)"
proof -
  have h: "env_Z0 example_env = Z0_getitem (\<lambda>v. (''IndexError'', ''index out of range''))
     \<and> env_convert_document_units_to_meters example_env (world example_state)
         = (Inr 0.001, 1)
     \<and> env_TunnelParameters example_env 1 = (Inr (Obj 7 True ''TunnelParameters''), 11)"
    by (simp add: example_env_def example_state_def)
  with C8_landscape_defaults_to_1
    [where env = example_env and a = example_args and s = example_state
       and failure = "\<lambda>v. (''IndexError'', ''index out of range'')"
       and c = "0.001" and ?w1.0 = 1 and d = "Obj 7 True ''TunnelParameters''"
       and ?w2.0 = 11]
  show ?thesis by blast
qed

subsection \<open>C9: every other failure propagates unchanged\<close>

text \<open>
  Claim C9. A failure of the unit query, of the \<open>TunnelParameters\<close> constructor, of
  the base constructor or of the case builder is returned to the caller as it was raised,
  with the effects made so far: it is neither caught nor wrapped, and in particular it is
  not turned into the \<open>ValueError\<close> of the landscape check, even when it is itself
  a \<open>ValueError\<close>.
\<close>

theorem C9_other_failures_propagate_unchanged:
  "(env_Z0 env (arg_or (PyInt 1) (arg_landscape a)) = Inr z
      \<and> env_convert_document_units_to_meters env (world s) = (Inl e, w1)
    \<longrightarrow> from_geometries_wind_vector_and_parameters env a s =
          (Inl e, \<lparr>world = w1, calls = calls s @ [CallConvertUnits]\<rparr>))
   \<and> (env_Z0 env (arg_or (PyInt 1) (arg_landscape a)) = Inr z
      \<and> env_convert_document_units_to_meters env (world s) = (Inr c, w1)
      \<and> \<not> py_bool (arg_or PyNone (arg_tunnel_parameters a))
      \<and> env_TunnelParameters env w1 = (Inl e, w2)
    \<longrightarrow> from_geometries_wind_vector_and_parameters env a s =
          (Inl e, \<lparr>world = w2, calls = calls s @ [CallConvertUnits, CallTunnelParameters]\<rparr>))
   \<and> (env_Z0 env (arg_or (PyInt 1) (arg_landscape a)) = Inr z
      \<and> env_convert_document_units_to_meters env (world s) = (Inr c, w1)
      \<and> (py_bool (arg_or PyNone (arg_tunnel_parameters a))
           \<or> env_TunnelParameters env w1 = (Inr d, w2))
    \<longrightarrow> (\<exists>A s2. from_geometries_wind_vector_and_parameters env a s =
                 external (CallBaseConstructor A)
                   (env_WindTunnel_from_geometries env A) s2
               \<and> (\<forall>e' w3. env_WindTunnel_from_geometries env A (world s2) = (Inl e', w3)
                    \<longrightarrow> from_geometries_wind_vector_and_parameters env a s =
                          (Inl e', \<lparr>world = w3,
                                    calls = calls s2 @ [CallBaseConstructor A]\<rparr>))))
   \<and> (env_Case_from_wind_tunnel env self (arg_or PyNone m) (world s) = (Inl e, w1)
    \<longrightarrow> to_openfoam_case env self m s =
          (Inl e, \<lparr>world = w1,
                   calls = calls s @ [CallCaseBuilder self (arg_or PyNone m)]\<rparr>))"
proof (intro conjI impI)
  assume "env_Z0 env (arg_or (PyInt 1) (arg_landscape a)) = Inr z
      \<and> env_convert_document_units_to_meters env (world s) = (Inl e, w1)"
  then show "from_geometries_wind_vector_and_parameters env a s =
          (Inl e, \<lparr>world = w1, calls = calls s @ [CallConvertUnits]\<rparr>)"
    by (simp add: from_geometries_wind_vector_and_parameters_def external_def Let_def)
next
  assume "env_Z0 env (arg_or (PyInt 1) (arg_landscape a)) = Inr z
      \<and> env_convert_document_units_to_meters env (world s) = (Inr c, w1)
      \<and> \<not> py_bool (arg_or PyNone (arg_tunnel_parameters a))
      \<and> env_TunnelParameters env w1 = (Inl e, w2)"
  then show "from_geometries_wind_vector_and_parameters env a s =
      (Inl e, \<lparr>world = w2, calls = calls s @ [CallConvertUnits, CallTunnelParameters]\<rparr>)"
    by (simp add: from_geometries_wind_vector_and_parameters_def external_def Let_def)
next
  assume h: "env_Z0 env (arg_or (PyInt 1) (arg_landscape a)) = Inr z
      \<and> env_convert_document_units_to_meters env (world s) = (Inr c, w1)
      \<and> (py_bool (arg_or PyNone (arg_tunnel_parameters a))
           \<or> env_TunnelParameters env w1 = (Inr d, w2))"
  then have look: "env_Z0 env (arg_or (PyInt 1) (arg_landscape a)) = Inr z"
    and units: "env_convert_document_units_to_meters env (world s) = (Inr c, w1)"
    and tp: "py_bool (arg_or PyNone (arg_tunnel_parameters a))
           \<or> env_TunnelParameters env w1 = (Inr d, w2)"
    by simp_all
  from construct_forwards [OF look units tp]
  obtain A s2 where R: "from_geometries_wind_vector_and_parameters env a s =
        external (CallBaseConstructor A) (env_WindTunnel_from_geometries env A) s2"
    by blast
  have "\<forall>e' w3. env_WindTunnel_from_geometries env A (world s2) = (Inl e', w3)
          \<longrightarrow> from_geometries_wind_vector_and_parameters env a s =
              (Inl e', \<lparr>world = w3, calls = calls s2 @ [CallBaseConstructor A]\<rparr>)"
    by (simp add: R external_def)
  with R show "\<exists>A s2. from_geometries_wind_vector_and_parameters env a s =
                 external (CallBaseConstructor A)
                   (env_WindTunnel_from_geometries env A) s2
               \<and> (\<forall>e' w3. env_WindTunnel_from_geometries env A (world s2) = (Inl e', w3)
                    \<longrightarrow> from_geometries_wind_vector_and_parameters env a s =
                          (Inl e', \<lparr>world = w3,
                                    calls = calls s2 @ [CallBaseConstructor A]\<rparr>))"
    by blast
next
  assume "env_Case_from_wind_tunnel env self (arg_or PyNone m) (world s) = (Inl e, w1)"
  then show "to_openfoam_case env self m s =
          (Inl e, \<lparr>world = w1,
                   calls = calls s @ [CallCaseBuilder self (arg_or PyNone m)]\<rparr>)"
    by (simp add: to_openfoam_case_def external_def Let_def)
qed

theorem C9_witness:
  "from_geometries_wind_vector_and_parameters
     (example_env\<lparr>env_convert_document_units_to_meters :=
        (\<lambda>w. (Inl (Exn ''IOError'' ''no active document''), w))\<rparr>)
     example_args example_state =
     (Inl (Exn ''IOError'' ''no active document''),
      \<lparr>world = 0, calls = [CallConvertUnits]\<rparr>)
   \<and> from_geometries_wind_vector_and_parameters
     (example_env\<lparr>env_TunnelParameters :=
        (\<lambda>w. (Inl (Exn ''ValueError'' ''bad default''), w))\<rparr>)
     example_args example_state =
     (Inl (Exn ''ValueError'' ''bad default''),
      \<lparr>world = 1, calls = [CallConvertUnits, CallTunnelParameters]\<rparr>)
   \<and> from_geometries_wind_vector_and_parameters
     (example_env\<lparr>env_WindTunnel_from_geometries :=
        (\<lambda>A w. (Inl (Exn ''ValueError'' ''no geometries''), w))\<rparr>)
     example_args example_state =
     (Inl (Exn ''ValueError'' ''no geometries''),
      \<lparr>world = 11,
       calls = [CallConvertUnits, CallTunnelParameters,
                CallBaseConstructor
                  \<lparr>base_name = PyStr ''tunnel'',
                   base_geometries = PyObj (Obj 3 False ''[]''),
                   base_wind_vector = PyObj (Obj 4 True ''Vector3D''),
                   base_tunnel_parameters = PyObj (Obj 7 True ''TunnelParameters''),
                   base_roughness = 0.005, base_meshing_parameters = PyNone,
                   base_zref = PyNone, base_convertToMeters = 0.001\<rparr>]\<rparr>)
   \<and> to_openfoam_case
     (example_env\<lparr>env_Case_from_wind_tunnel :=
        (\<lambda>self m w. (Inl (Exn ''OSError'' ''cannot write case''), w))\<rparr>)
     (PyObj (Obj 1 True ''WindTunnelGH'')) None example_state =
     (Inl (Exn ''OSError'' ''cannot write case''),
      \<lparr>world = 0,
       calls = [CallCaseBuilder (PyObj (Obj 1 True ''WindTunnelGH'')) PyNone]\<rparr>)"
  using C9_other_failures_propagate_unchanged
    [where env = "example_env\<lparr>env_convert_document_units_to_meters :=
        (\<lambda>w. (Inl (Exn ''IOError'' ''no active document''), w))\<rparr>"
       and a = example_args and s = example_state and z = "0.005"
       and e = "Exn ''IOError'' ''no active document''" and ?w1.0 = 0]
    C9_other_failures_propagate_unchanged
    [where env = "example_env\<lparr>env_TunnelParameters :=
        (\<lambda>w. (Inl (Exn ''ValueError'' ''bad default''), w))\<rparr>"
       and a = example_args and s = example_state and z = "0.005" and c = "0.001"
       and e = "Exn ''ValueError'' ''bad default''" and ?w1.0 = 1 and ?w2.0 = 1]
    C9_other_failures_propagate_unchanged
    [where env = "example_env\<lparr>env_WindTunnel_from_geometries :=
        (\<lambda>A w. (Inl (Exn ''ValueError'' ''no geometries''), w))\<rparr>"
       and a = example_args and s = example_state and z = "0.005" and c = "0.001"
       and d = "Obj 7 True ''TunnelParameters''" and ?w1.0 = 1 and ?w2.0 = 11]
    C9_other_failures_propagate_unchanged
    [where env = "example_env\<lparr>env_Case_from_wind_tunnel :=
        (\<lambda>self m w. (Inl (Exn ''OSError'' ''cannot write case''), w))\<rparr>"
       and self = "PyObj (Obj 1 True ''WindTunnelGH'')" and m = None
       and s = example_state
       and e = "Exn ''OSError'' ''cannot write case''" and ?w1.0 = 0]
  by (simp add: example_env_def example_args_def example_state_def arg_or_def
        Z0_getitem_def Z0_values_def from_geometries_wind_vector_and_parameters_def
        to_openfoam_case_def external_def)

subsection \<open>C10: any falsy tunnel parameters are replaced\<close>

text \<open>
  Claim C10. The substitution is made by \<open>or\<close>, so it happens for every argument
  whose truth value is false (\<open>None\<close>, \<open>0\<close>, \<open>False\<close>, an empty string, an
  object that tests false): the caller's value is dropped and the instance returned by
  the \<open>TunnelParameters\<close> constructor is forwarded in its place.
\<close>

theorem C10_falsy_tunnel_parameters_replaced:
  assumes "arg_tunnel_parameters a = Some tp"
    and "\<not> py_bool tp"
    and "env_Z0 env (arg_or (PyInt 1) (arg_landscape a)) = Inr z"
    and "env_convert_document_units_to_meters env (world s) = (Inr c, w1)"
    and "env_TunnelParameters env w1 = (Inr d, w2)"
  shows "\<exists>A. from_geometries_wind_vector_and_parameters env a s =
            external (CallBaseConstructor A) (env_WindTunnel_from_geometries env A)
              \<lparr>world = w2, calls = calls s @ [CallConvertUnits, CallTunnelParameters]\<rparr>
          \<and> base_tunnel_parameters A = PyObj d"
proof -
  have falsy: "\<not> py_bool (arg_or PyNone (arg_tunnel_parameters a))"
    using assms(1,2) by (simp add: arg_or_def)
  show ?thesis
    by (intro exI conjI, rule construct_falsy [OF assms(3) assms(4) falsy assms(5)])
       simp
qed

theorem C10_witness:
  "\<not> py_bool (PyInt 0) \<and> \<not> py_bool (PyBool False)
   \<and> \<not> py_bool (PyObj (Obj 5 False ''TunnelParameters''))
   \<and> (\<exists>A. from_geometries_wind_vector_and_parameters example_env
              (example_args\<lparr>arg_tunnel_parameters := Some (PyInt 0)\<rparr>) example_state =
            external (CallBaseConstructor A)
              (env_WindTunnel_from_geometries example_env A)
              \<lparr>world = 11, calls = [CallConvertUnits, CallTunnelParameters]\<rparr>
          \<and> base_tunnel_parameters A = PyObj (Obj 7 True ''TunnelParameters''))
   \<and> (\<exists>A. from_geometries_wind_vector_and_parameters example_env
              (example_args\<lparr>arg_tunnel_parameters := Some (PyBool False)\<rparr>)
              example_state =
            external (CallBaseConstructor A)
              (env_WindTunnel_from_geometries example_env A)
              \<lparr>world = 11, calls = [CallConvertUnits, CallTunnelParameters]\<rparr>
          \<and> base_tunnel_parameters A = PyObj (Obj 7 True ''TunnelParameters''))
   \<and> (\<exists>A. from_geometries_wind_vector_and_parameters example_env
              (example_args\<lparr>arg_tunnel_parameters :=
                 Some (PyObj (Obj 5 False ''TunnelParameters''))\<rparr>) example_state =
            external (CallBaseConstructor A)
              (env_WindTunnel_from_geometries example_env A)
              \<lparr>world = 11, calls = [CallConvertUnits, CallTunnelParameters]\<rparr>
          \<and> base_tunnel_parameters A = PyObj (Obj 7 True ''TunnelParameters''))"
  using C10_falsy_tunnel_parameters_replaced
    [where a = "example_args\<lparr>arg_tunnel_parameters := Some (PyInt 0)\<rparr>"
       and tp = "PyInt 0" and env = example_env and z = "0.005" and s = example_state
       and c = "0.001" and ?w1.0 = 1 and d = "Obj 7 True ''TunnelParameters''"
       and ?w2.0 = 11]
    C10_falsy_tunnel_parameters_replaced
    [where a = "example_args\<lparr>arg_tunnel_parameters := Some (PyBool False)\<rparr>"
       and tp = "PyBool False" and env = example_env and z = "0.005"
       and s = example_state
       and c = "0.001" and ?w1.0 = 1 and d = "Obj 7 True ''TunnelParameters''"
       and ?w2.0 = 11]
    C10_falsy_tunnel_parameters_replaced
    [where a = "example_args\<lparr>arg_tunnel_parameters :=
                 Some (PyObj (Obj 5 False ''TunnelParameters''))\<rparr>"
       and tp = "PyObj (Obj 5 False ''TunnelParameters'')" and env = example_env
       and z = "0.005" and s = example_state
       and c = "0.001" and ?w1.0 = 1 and d = "Obj 7 True ''TunnelParameters''"
       and ?w2.0 = 11]
  by (simp add: example_env_def example_args_def example_state_def arg_or_def
        Z0_getitem_def Z0_values_def)

end
